theory Spec2Isabelle
  imports Complex_Main "HOL-Library.AList"
begin

section \<open>Python values and strings\<close>

text \<open>
  The tool layer and the store exchange dynamically typed values: the arguments of the
  tools, the parameters bound to SQL statements and the columns read back. They are
  modelled by one datatype. Floats that the program only stores, compares with zero and
  reads back are carried as rationals. A list stands for the values of the types that
  the store cannot take as a parameter.
\<close>

datatype pyval = PNone | PBool bool | PInt int | PFloat rat | PStr string | PList "pyval list"

text \<open>Truth value testing, as \<^verbatim>\<open>if x:\<close> does it.\<close>

fun truthy :: "pyval \<Rightarrow> bool" where
  "truthy PNone = False"
| "truthy (PBool b) = b"
| "truthy (PInt n) = (n \<noteq> 0)"
| "truthy (PFloat r) = (r \<noteq> 0)"
| "truthy (PStr s) = (s \<noteq> [])"
| "truthy (PList xs) = (xs \<noteq> [])"

text \<open>An optional string argument: \<^verbatim>\<open>None\<close> and the empty string are both falsy.\<close>

fun truthy_str :: "string option \<Rightarrow> bool" where
  "truthy_str None = False"
| "truthy_str (Some s) = (s \<noteq> [])"

fun opt_str :: "string option \<Rightarrow> pyval" where
  "opt_str None = PNone"
| "opt_str (Some s) = PStr s"

text \<open>
  A string is a list of characters with code points below 256, so a text that holds a
  character beyond Latin-1 is outside the model. \<^verbatim>\<open>str.lower\<close> moves the letters
  A to Z and the capital letters of Latin-1 to their small letters and keeps every other
  character.
\<close>

definition upper_letters :: string where
  "upper_letters = ''ABCDEFGHIJKLMNOPQRSTUVWXYZ'' @
     [CHR 0xC0, CHR 0xC1, CHR 0xC2, CHR 0xC3, CHR 0xC4, CHR 0xC5,
      CHR 0xC6, CHR 0xC7, CHR 0xC8, CHR 0xC9, CHR 0xCA, CHR 0xCB,
      CHR 0xCC, CHR 0xCD, CHR 0xCE, CHR 0xCF, CHR 0xD0, CHR 0xD1,
      CHR 0xD2, CHR 0xD3, CHR 0xD4, CHR 0xD5, CHR 0xD6, CHR 0xD8,
      CHR 0xD9, CHR 0xDA, CHR 0xDB, CHR 0xDC, CHR 0xDD, CHR 0xDE]"

definition lower_letters :: string where
  "lower_letters = ''abcdefghijklmnopqrstuvwxyz'' @
     [CHR 0xE0, CHR 0xE1, CHR 0xE2, CHR 0xE3, CHR 0xE4, CHR 0xE5,
      CHR 0xE6, CHR 0xE7, CHR 0xE8, CHR 0xE9, CHR 0xEA, CHR 0xEB,
      CHR 0xEC, CHR 0xED, CHR 0xEE, CHR 0xEF, CHR 0xF0, CHR 0xF1,
      CHR 0xF2, CHR 0xF3, CHR 0xF4, CHR 0xF5, CHR 0xF6, CHR 0xF8,
      CHR 0xF9, CHR 0xFA, CHR 0xFB, CHR 0xFC, CHR 0xFD, CHR 0xFE]"

definition lower_char :: "char \<Rightarrow> char" where
  "lower_char c = (case map_of (zip upper_letters lower_letters) c of Some d \<Rightarrow> d | None \<Rightarrow> c)"

definition lower :: "string \<Rightarrow> string" where
  "lower s = map lower_char s"

text \<open>
  \<^verbatim>\<open>str.isspace\<close> on one character: the ASCII blanks, the four separators 0x1C to
  0x1F, the next-line control 0x85 and the no-break space 0xA0. \<^verbatim>\<open>str.strip\<close>
  drops these characters from both ends.
\<close>

definition is_space :: "char \<Rightarrow> bool" where
  "is_space c =
     (c \<in> set [CHR 0x09, CHR 0x0A, CHR 0x0B, CHR 0x0C, CHR 0x0D,
                CHR 0x1C, CHR 0x1D, CHR 0x1E, CHR 0x1F, CHR '' '', CHR 0x85, CHR 0xA0])"

definition strip :: "string \<Rightarrow> string" where
  "strip s = rev (dropWhile is_space (rev (dropWhile is_space s)))"

text \<open>
  The source tests for and deletes the two-character markers \<^verbatim>\<open>"pm"\<close> and
  \<^verbatim>\<open>"am"\<close>: \<open>has_marker a b s\<close> is \<^verbatim>\<open>(a + b) in s\<close> and
  \<open>remove_marker a b s\<close> is \<^verbatim>\<open>s.replace(a + b, "")\<close>, which deletes the
  occurrences from left to right without overlap.
\<close>

fun has_marker :: "char \<Rightarrow> char \<Rightarrow> string \<Rightarrow> bool" where
  "has_marker a b (x # y # r) = ((x = a \<and> y = b) \<or> has_marker a b (y # r))"
| "has_marker a b r = False"

fun remove_marker :: "char \<Rightarrow> char \<Rightarrow> string \<Rightarrow> string" where
  "remove_marker a b (x # y # r) =
     (if x = a \<and> y = b then remove_marker a b r else x # remove_marker a b (y # r))"
| "remove_marker a b r = r"

text \<open>\<^verbatim>\<open>s.split(sep)\<close> for a one-character separator: never an empty list.\<close>

fun split_on :: "char \<Rightarrow> string \<Rightarrow> string list" where
  "split_on sep [] = [[]]"
| "split_on sep (c # cs) =
     (if c = sep then [] # split_on sep cs
      else (case split_on sep cs of p # ps \<Rightarrow> (c # p) # ps | [] \<Rightarrow> [[c]]))"

text \<open>
  \<^verbatim>\<open>int(s)\<close> on a string, in two steps as the interpreter takes them. A string with
  a character from 128 on is first rewritten: characters below 127 stay, the two blanks
  of Latin-1 become the space, and at any other character the text ends in a question
  mark, which the parser refuses. The parser then skips the C blanks (tab to carriage
  return, and the space) at both ends, takes one sign and the decimal digits, with
  single underscores between digits, and refuses a literal of more than 4300 digits.
  \<open>None\<close> is the \<^verbatim>\<open>ValueError\<close>.
\<close>

definition is_digit :: "char \<Rightarrow> bool" where
  "is_digit c = (c \<in> set ''0123456789'')"

definition digit_val :: "char \<Rightarrow> int" where
  "digit_val c =
     (case map_of (zip ''0123456789'' [0, 1, 2, 3, 4, 5, 6, 7, 8, 9]) c of
        Some d \<Rightarrow> d
      | None \<Rightarrow> 0)"

definition is_c_space :: "char \<Rightarrow> bool" where
  "is_c_space c = (c \<in> set [CHR 0x09, CHR 0x0A, CHR 0x0B, CHR 0x0C, CHR 0x0D, CHR '' ''])"

fun to_ascii :: "string \<Rightarrow> string" where
  "to_ascii [] = []"
| "to_ascii (c # cs) =
     (if (of_char c :: nat) < 127 then c # to_ascii cs
      else if is_space c then CHR '' '' # to_ascii cs
      else ''?'')"

definition int_text :: "string \<Rightarrow> string" where
  "int_text s = (if list_all (\<lambda>c. (of_char c :: nat) < 128) s then s else to_ascii s)"

definition max_str_digits :: nat where
  "max_str_digits = 4300"

fun py_digits :: "int \<Rightarrow> string \<Rightarrow> int option" where
  "py_digits acc [] = Some acc"
| "py_digits acc (c # cs) =
     (if is_digit c then py_digits (10 * acc + digit_val c) cs
      else if c = CHR ''_'' then
        (case cs of
           [] \<Rightarrow> None
         | d # ds \<Rightarrow> if is_digit d then py_digits (10 * acc + digit_val d) ds else None)
      else None)"

fun py_unsigned :: "string \<Rightarrow> int option" where
  "py_unsigned [] = None"
| "py_unsigned (c # cs) = (if is_digit c then py_digits (digit_val c) cs else None)"

definition py_int :: "string \<Rightarrow> int option" where
  "py_int s =
     (let t = rev (dropWhile is_c_space (rev (dropWhile is_c_space (int_text s)))) in
      if max_str_digits < length (filter is_digit t) then None
      else
        (case t of
           [] \<Rightarrow> None
         | c # cs \<Rightarrow>
             if c = CHR ''-'' then map_option uminus (py_unsigned cs)
             else if c = CHR ''+'' then py_unsigned cs
             else py_unsigned (c # cs)))"

text \<open>The number that a string of decimal digits denotes.\<close>

definition digits_value :: "string \<Rightarrow> int" where
  "digits_value s = fold (\<lambda>c acc. 10 * acc + digit_val c) s 0"

text \<open>
  \<^verbatim>\<open>str(n)\<close> and the format \<^verbatim>\<open>{n:02d}\<close> of an integer. Both raise
  \<^verbatim>\<open>ValueError\<close>, here \<open>None\<close>, for a number of more than 4300 digits.
\<close>

definition digit_char :: "nat \<Rightarrow> char" where
  "digit_char d = ''0123456789'' ! d"

function str_nat :: "nat \<Rightarrow> string" where
  "str_nat n = (if n < 10 then [digit_char n] else str_nat (n div 10) @ [digit_char (n mod 10)])"
  by pat_completeness auto
termination
  by (relation "measure (\<lambda>n. n)") auto

declare str_nat.simps [simp del]

definition str_int :: "int \<Rightarrow> string" where
  "str_int i = (if i < 0 then CHR ''-'' # str_nat (nat (- i)) else str_nat (nat i))"

definition fmt_02d :: "int \<Rightarrow> string" where
  "fmt_02d i =
     (if i < 0 then CHR ''-'' # str_nat (nat (- i))
      else if i < 10 then CHR ''0'' # str_nat (nat i)
      else str_nat (nat i))"

definition py_str :: "int \<Rightarrow> string option" where
  "py_str i = (if max_str_digits < length (str_nat (nat \<bar>i\<bar>)) then None else Some (str_int i))"

definition py_fmt_02d :: "int \<Rightarrow> string option" where
  "py_fmt_02d i =
     (if max_str_digits < length (str_nat (nat \<bar>i\<bar>)) then None else Some (fmt_02d i))"

section \<open>Time literals of the tour-scheduling tool\<close>

text \<open>
  The block of \<^verbatim>\<open>schedule_property_tour\<close> that formats the time. \<open>None\<close> is
  the exception that the enclosing \<^verbatim>\<open>try\<close> turns into the error payload
  "Could not parse tour time". A literal with more than one colon keeps the first two
  parts only.
\<close>

definition hour_pm :: "int \<Rightarrow> int" where
  "hour_pm hour = (if hour = 12 then hour else hour + 12)"

definition hour_am :: "int \<Rightarrow> int" where
  "hour_am hour = (if hour = 12 then 0 else hour)"

definition format_time :: "string \<Rightarrow> string option" where
  "format_time tour_time =
     (if has_marker (CHR ''p'') (CHR ''m'') (lower tour_time) then
        (let time_parts =
               split_on (CHR '':'') (strip (remove_marker (CHR ''p'') (CHR ''m'') (lower tour_time)))
         in if length time_parts = 1 then
              (case py_int (time_parts ! 0) of
                 None \<Rightarrow> None
               | Some hour \<Rightarrow> map_option (\<lambda>text. text @ '':00'') (py_str (hour_pm hour)))
            else
              (case py_int (time_parts ! 0) of
                 None \<Rightarrow> None
               | Some hour \<Rightarrow>
                   map_option (\<lambda>text. text @ '':'' @ time_parts ! 1) (py_str (hour_pm hour))))
      else if has_marker (CHR ''a'') (CHR ''m'') (lower tour_time) then
        (let time_parts =
               split_on (CHR '':'') (strip (remove_marker (CHR ''a'') (CHR ''m'') (lower tour_time)))
         in if length time_parts = 1 then
              (case py_int (time_parts ! 0) of
                 None \<Rightarrow> None
               | Some hour \<Rightarrow> map_option (\<lambda>text. text @ '':00'') (py_fmt_02d (hour_am hour)))
            else
              (case py_int (time_parts ! 0) of
                 None \<Rightarrow> None
               | Some hour \<Rightarrow>
                   map_option (\<lambda>text. text @ '':'' @ time_parts ! 1) (py_fmt_02d (hour_am hour))))
      else Some tour_time)"

section \<open>The store\<close>

text \<open>
  The store is an in-memory SQLite database. Its tables are lists of rows in storage
  order. The apartments are seed data with every column filled, so their rows are typed;
  the columns of prospects and tours that the program writes hold Python values, as
  SQLite stores whatever is bound. The amenities table is read by none of the operations
  below and is left out.
\<close>

record apartment =
  a_id :: int
  unit_number :: string
  apartment_type :: string
  floor_plan :: string
  square_feet :: int
  bedrooms :: int
  bathrooms :: rat
  rent_amount :: rat
  is_available :: int
  available_date :: string
  features :: string

record user_row =
  u_id :: int
  u_user_id :: string
  u_name :: pyval
  u_phone :: pyval
  u_email :: pyval
  u_move_in_date :: pyval
  u_preferred_apartment_type :: pyval
  u_has_pets :: pyval
  u_income :: pyval
  u_credit_score :: pyval
  u_notes :: pyval
  u_created_at :: string
  u_last_contact :: pyval

record tour_row =
  t_id :: int
  t_user_id :: string
  t_tour_date :: pyval
  t_tour_time :: pyval
  t_apartment_id :: pyval
  t_is_virtual :: int
  t_status :: string
  t_notes :: pyval

record database =
  apartments :: "apartment list"
  users :: "user_row list"
  tours :: "tour_row list"

definition mk_apartment ::
  "int \<Rightarrow> string \<Rightarrow> string \<Rightarrow> string \<Rightarrow> int \<Rightarrow> int \<Rightarrow> rat \<Rightarrow> rat \<Rightarrow> int \<Rightarrow> string \<Rightarrow> string
     \<Rightarrow> apartment" where
  "mk_apartment i un ty fp sq br ba rent av dt ft =
     \<lparr>a_id = i, unit_number = un, apartment_type = ty, floor_plan = fp, square_feet = sq,
      bedrooms = br, bathrooms = ba, rent_amount = rent, is_available = av,
      available_date = dt, features = ft\<rparr>"

text \<open>The rows that \<^verbatim>\<open>_populate_initial_data\<close> inserts.\<close>

definition apartments_data :: "apartment list" where
  "apartments_data =
     [mk_apartment 101 ''101'' ''1_bedroom'' ''Maple'' 750 1 1 1600 1 ''2025-07-01''
        ''Corner unit, extra windows'',
      mk_apartment 102 ''102'' ''1_bedroom'' ''Maple'' 750 1 1 1600 1 ''2025-07-15''
        ''Updated kitchen'',
      mk_apartment 103 ''103'' ''1_bedroom'' ''Cedar'' 780 1 1 1650 0 ''2025-06-01''
        ''Balcony, park view'',
      mk_apartment 201 ''201'' ''1_bedroom'' ''Cedar'' 780 1 1 1650 0 ''2025-08-01''
        ''Extra closet space'',
      mk_apartment 301 ''301'' ''2_bedroom'' ''Birch'' 1050 2 2 2100 1 ''2025-07-01''
        ''Corner unit, city view'',
      mk_apartment 302 ''302'' ''2_bedroom'' ''Birch'' 1050 2 2 2100 1 ''2025-07-01''
        ''Updated bathrooms'',
      mk_apartment 401 ''401'' ''2_bedroom'' ''Aspen'' 1100 2 2 2200 0 ''2025-06-15''
        ''Premium finishes'',
      mk_apartment 402 ''402'' ''2_bedroom'' ''Aspen'' 1100 2 2 2200 0 ''2025-09-01''
        ''Penthouse floor'']"

text \<open>The database as \<^verbatim>\<open>MockDatabase.__init__\<close> leaves it.\<close>

definition MockDatabase :: database where
  "MockDatabase = \<lparr>apartments = apartments_data, users = [], tours = []\<rparr>"

text \<open>
  SQLite compares text bytewise (\<^verbatim>\<open>available_date <= ?\<close>), and gives a new row
  of an \<^verbatim>\<open>INTEGER PRIMARY KEY\<close> table the largest key plus one, or 1 in an empty
  table.
\<close>

fun str_le :: "string \<Rightarrow> string \<Rightarrow> bool" where
  "str_le [] t = True"
| "str_le (x # xs) [] = False"
| "str_le (x # xs) (y # ys) =
     (if x = y then str_le xs ys else (of_char x :: nat) < of_char y)"

definition next_rowid :: "int list \<Rightarrow> int" where
  "next_rowid ids = (case ids of [] \<Rightarrow> 1 | i # rest \<Rightarrow> fold max rest i + 1)"

subsection \<open>Apartments\<close>

definition type_filter :: "string option \<Rightarrow> apartment \<Rightarrow> bool" where
  "type_filter apt_type a =
     (if truthy_str apt_type then Some (apartment_type a) = apt_type else True)"

definition date_filter :: "string option \<Rightarrow> apartment \<Rightarrow> bool" where
  "date_filter move_in_date a =
     (case move_in_date of
        None \<Rightarrow> True
      | Some d \<Rightarrow> if d \<noteq> [] then str_le (available_date a) d else True)"

definition get_available_apartments ::
  "database \<Rightarrow> string option \<Rightarrow> string option \<Rightarrow> apartment list" where
  "get_available_apartments db apt_type move_in_date =
     filter (\<lambda>a. is_available a = 1 \<and> type_filter apt_type a \<and> date_filter move_in_date a)
       (apartments db)"

text \<open>\<open>None\<close> is the empty dict of the source.\<close>

definition get_apartment_by_id :: "database \<Rightarrow> int \<Rightarrow> apartment option" where
  "get_apartment_by_id db apartment_id = find (\<lambda>a. a_id a = apartment_id) (apartments db)"

subsection \<open>Pricing\<close>

record pricing =
  min_rent :: rat
  max_rent :: rat
  avg_rent :: rat
  count :: nat

text \<open>The aggregates of one non-empty group of rents.\<close>

definition aggregate :: "rat list \<Rightarrow> pricing" where
  "aggregate rents =
     \<lparr>min_rent = fold min (tl rents) (hd rents),
      max_rent = fold max (tl rents) (hd rents),
      avg_rent = sum_list rents / of_nat (length rents),
      count = length rents\<rparr>"

text \<open>
  The statement selects from every row of the table (it has no condition on
  \<^verbatim>\<open>is_available\<close>), keeps one type when a type is given, and groups by type.
  The result is a dict keyed by type.
\<close>

definition get_pricing_info :: "database \<Rightarrow> string option \<Rightarrow> (string \<times> pricing) list" where
  "get_pricing_info db apt_type =
     (let rows = filter (type_filter apt_type) (apartments db)
      in map (\<lambda>t. (t, aggregate (map rent_amount (filter (\<lambda>a. apartment_type a = t) rows))))
           (remdups (map apartment_type rows)))"

subsection \<open>Prospects\<close>

datatype error = IntegrityError | TypeError | OverflowError | ProgrammingError

text \<open>
  \<open>uuid4\<close> is the string of the identifier that \<^verbatim>\<open>uuid.uuid4()\<close> draws and
  \<open>current_time\<close> the ISO text of the clock. The column \<^verbatim>\<open>user_id\<close> is
  unique: inserting an identifier a second time raises, and the source does not catch it.
\<close>

definition create_user ::
  "database \<Rightarrow> string \<Rightarrow> string \<Rightarrow> string option \<Rightarrow> string option \<Rightarrow> string option \<Rightarrow> string option
     \<Rightarrow> string option \<Rightarrow> bool option \<Rightarrow> error + (string \<times> database)" where
  "create_user db uuid4 current_time name phone email move_in_date preferred_apartment_type has_pets =
     (if uuid4 \<in> set (map u_user_id (users db)) then Inl IntegrityError
      else Inr (uuid4,
        db\<lparr>users := users db @
          [\<lparr>u_id = next_rowid (map u_id (users db)),
            u_user_id = uuid4,
            u_name = opt_str name,
            u_phone = opt_str phone,
            u_email = opt_str email,
            u_move_in_date = opt_str move_in_date,
            u_preferred_apartment_type = opt_str preferred_apartment_type,
            u_has_pets = (case has_pets of None \<Rightarrow> PNone | Some b \<Rightarrow> PInt (if b then 1 else 0)),
            u_income = PNone,
            u_credit_score = PNone,
            u_notes = PNone,
            u_created_at = current_time,
            u_last_contact = PStr current_time\<rparr>]\<rparr>))"

text \<open>
  Binding a Python value to a parameter of a statement: \<^verbatim>\<open>None\<close>, strings and
  floats are taken as they are, a boolean as the integer 1 or 0, an integer only within
  64 bits (\<^verbatim>\<open>OverflowError\<close> otherwise), and a value of any other type is refused
  (\<^verbatim>\<open>ProgrammingError\<close>). The parameters are bound in order, so the first one
  that fails decides the error; nothing has been written by then.
\<close>

fun bound_value :: "pyval \<Rightarrow> pyval" where
  "bound_value (PBool b) = PInt (if b then 1 else 0)"
| "bound_value v = v"

fun bind :: "pyval \<Rightarrow> error + pyval" where
  "bind (PInt n) = (if - (2 ^ 63) \<le> n \<and> n < 2 ^ 63 then Inr (PInt n) else Inl OverflowError)"
| "bind (PList xs) = Inl ProgrammingError"
| "bind v = Inr (bound_value v)"

fun bind_all :: "(string \<times> pyval) list \<Rightarrow> error + (string \<times> pyval) list" where
  "bind_all [] = Inr []"
| "bind_all ((key, v) # rest) =
     (case bind v of
        Inl e \<Rightarrow> Inl e
      | Inr b \<Rightarrow> (case bind_all rest of Inl e \<Rightarrow> Inl e | Inr bs \<Rightarrow> Inr ((key, b) # bs)))"

text \<open>The values that binding accepts.\<close>

definition bindable :: "pyval \<Rightarrow> bool" where
  "bindable v = (case bind v of Inl e \<Rightarrow> False | Inr b \<Rightarrow> True)"

text \<open>
  What a column of the prospects table keeps of a bound value. A value of the storage
  class that the column declares (text, integer or real), and the null value in any
  column, is stored as it is. Any other value is rewritten by the column affinity of
  SQLite; that conversion is not part of the program and is the parameter \<open>coerce\<close>,
  from the column and the bound value to the stored value.
\<close>

definition text_columns :: "string list" where
  "text_columns = [''name'', ''phone'', ''email'', ''move_in_date'', ''preferred_apartment_type'',
                   ''notes'', ''last_contact'']"

fun column_accepts :: "string \<Rightarrow> pyval \<Rightarrow> bool" where
  "column_accepts col PNone = True"
| "column_accepts col (PStr s) = (col \<in> set text_columns)"
| "column_accepts col (PInt n) = (col = ''credit_score'' \<or> col = ''has_pets'')"
| "column_accepts col (PFloat r) = (col = ''income'')"
| "column_accepts col (PBool b) = False"
| "column_accepts col (PList xs) = False"

definition stored :: "(string \<Rightarrow> pyval \<Rightarrow> pyval) \<Rightarrow> string \<Rightarrow> pyval \<Rightarrow> pyval" where
  "stored coerce col v = (if column_accepts col v then v else coerce col v)"

text \<open>
  The loop of \<^verbatim>\<open>update_user\<close> over the keyword arguments, building the SET clause.
  The list of the keys that are taken as they come is written in the loop; it is named
  here.
\<close>

definition allow_list :: "string list" where
  "allow_list = [''name'', ''phone'', ''email'', ''move_in_date'', ''preferred_apartment_type'',
                 ''income'', ''credit_score'', ''notes'']"

fun set_clause :: "(string \<times> pyval) list \<Rightarrow> (string \<times> pyval) list" where
  "set_clause [] = []"
| "set_clause ((key, v) # kwargs) =
     (if key \<in> set allow_list
      then (key, v) # set_clause kwargs
      else if key = ''has_pets'' \<and> v \<noteq> PNone
      then (''has_pets'', PInt (if truthy v then 1 else 0)) # set_clause kwargs
      else set_clause kwargs)"

text \<open>One assignment of the SET clause on one row.\<close>

definition assign :: "string \<times> pyval \<Rightarrow> user_row \<Rightarrow> user_row" where
  "assign kv r =
     (let key = fst kv; v = snd kv in
      if key = ''name'' then r\<lparr>u_name := v\<rparr>
      else if key = ''phone'' then r\<lparr>u_phone := v\<rparr>
      else if key = ''email'' then r\<lparr>u_email := v\<rparr>
      else if key = ''move_in_date'' then r\<lparr>u_move_in_date := v\<rparr>
      else if key = ''preferred_apartment_type'' then r\<lparr>u_preferred_apartment_type := v\<rparr>
      else if key = ''income'' then r\<lparr>u_income := v\<rparr>
      else if key = ''credit_score'' then r\<lparr>u_credit_score := v\<rparr>
      else if key = ''notes'' then r\<lparr>u_notes := v\<rparr>
      else if key = ''has_pets'' then r\<lparr>u_has_pets := v\<rparr>
      else if key = ''last_contact'' then r\<lparr>u_last_contact := v\<rparr>
      else r)"

text \<open>
  \<^verbatim>\<open>update_user(user_id, **kwargs)\<close> returns whether a row was affected, and the
  store. The keyword arguments are a dict: a list of pairs with distinct keys, in
  insertion order. A keyword named like one of the two parameters of the method makes the
  call itself raise \<^verbatim>\<open>TypeError\<close>. The statement is run only when the SET clause
  is not empty; its parameters are the values of the SET clause, the time of the call and
  the identifier, and an error of binding them leaves the function uncaught.
\<close>

definition update_user ::
  "(string \<Rightarrow> pyval \<Rightarrow> pyval) \<Rightarrow> database \<Rightarrow> string \<Rightarrow> string \<Rightarrow> (string \<times> pyval) list
     \<Rightarrow> error + (bool \<times> database)" where
  "update_user coerce db current_time user_id kwargs =
     (if ''self'' \<in> set (map fst kwargs) \<or> ''user_id'' \<in> set (map fst kwargs) then Inl TypeError
      else if kwargs = [] then Inr (False, db)
      else if set_clause kwargs = [] then Inr (False, db)
      else
        (case bind_all (set_clause kwargs @ [(''last_contact'', PStr current_time)]) of
           Inl e \<Rightarrow> Inl e
         | Inr params \<Rightarrow>
             (let sets = map (\<lambda>kv. (fst kv, stored coerce (fst kv) (snd kv))) params;
                  rowcount = length (filter (\<lambda>r. u_user_id r = user_id) (users db))
              in Inr (rowcount > 0,
                   db\<lparr>users := map (\<lambda>r. if u_user_id r = user_id then fold assign sets r else r)
                                  (users db)\<rparr>))))"

text \<open>
  The value of a column after an update with the keyword arguments \<open>kwargs\<close>: what the
  column keeps of the value supplied under the key, as it is bound, or the old value when
  the key is not supplied.
\<close>

definition supplied ::
  "(string \<Rightarrow> pyval \<Rightarrow> pyval) \<Rightarrow> (string \<times> pyval) list \<Rightarrow> string \<Rightarrow> pyval \<Rightarrow> pyval" where
  "supplied coerce kwargs key old =
     (case map_of kwargs key of None \<Rightarrow> old | Some v \<Rightarrow> stored coerce key (bound_value v))"

text \<open>The dict of a row, with \<^verbatim>\<open>has_pets\<close> turned into a boolean unless it is null.\<close>

definition user_dict :: "user_row \<Rightarrow> (string \<times> pyval) list" where
  "user_dict r =
     [(''id'', PInt (u_id r)),
      (''user_id'', PStr (u_user_id r)),
      (''name'', u_name r),
      (''phone'', u_phone r),
      (''email'', u_email r),
      (''move_in_date'', u_move_in_date r),
      (''preferred_apartment_type'', u_preferred_apartment_type r),
      (''has_pets'', if u_has_pets r \<noteq> PNone then PBool (truthy (u_has_pets r)) else PNone),
      (''income'', u_income r),
      (''credit_score'', u_credit_score r),
      (''notes'', u_notes r),
      (''created_at'', PStr (u_created_at r)),
      (''last_contact'', u_last_contact r)]"

text \<open>The empty list is the empty dict that the source returns when no row matches.\<close>

definition get_user :: "database \<Rightarrow> string \<Rightarrow> (string \<times> pyval) list" where
  "get_user db user_id =
     (case find (\<lambda>r. u_user_id r = user_id) (users db) of
        None \<Rightarrow> []
      | Some r \<Rightarrow> user_dict r)"

subsection \<open>Tours\<close>

text \<open>
  The date and time columns are declared NOT NULL: binding \<^verbatim>\<open>None\<close> to either
  makes the INSERT fail, which the source catches and answers with \<open>-1\<close>.
\<close>

definition schedule_tour ::
  "database \<Rightarrow> string \<Rightarrow> pyval \<Rightarrow> pyval \<Rightarrow> pyval \<Rightarrow> bool \<Rightarrow> pyval \<Rightarrow> int \<times> database" where
  "schedule_tour db user_id tour_date tour_time apartment_id is_virtual notes =
     (if tour_date = PNone \<or> tour_time = PNone then (- 1, db)
      else
        (let lastrowid = next_rowid (map t_id (tours db))
         in (lastrowid,
             db\<lparr>tours := tours db @
               [\<lparr>t_id = lastrowid, t_user_id = user_id, t_tour_date = tour_date,
                 t_tour_time = tour_time, t_apartment_id = apartment_id,
                 t_is_virtual = (if is_virtual then 1 else 0), t_status = ''Scheduled'',
                 t_notes = notes\<rparr>]\<rparr>)))"

section \<open>The tool layer\<close>

subsection \<open>Session state and responses\<close>

text \<open>
  The session state is a dict owned by the dialogue engine. The entries that the tools
  below read or write are the fields of a record; \<open>None\<close> in a field says that the key
  is not in the dict. A tool may be called without a context, and the state of a context
  may be \<^verbatim>\<open>None\<close>, which every tool first replaces by the empty dict.
\<close>

record apartment_search =
  s_apartment_type :: "string option"
  s_move_in_date :: "string option"
  s_formatted_date :: "string option"
  s_result_count :: nat
  s_counts_by_type :: "(string \<times> nat) list"

record scheduled_tour =
  st_tour_id :: int
  st_tour_date :: string
  st_tour_time :: string
  st_apartment_id :: "int option"
  st_apartment_type :: "string option"
  st_is_virtual :: bool

record session =
  current_user_id :: "string option"
  user_info :: "(string \<times> pyval) list option"
  last_apartment_search :: "apartment_search option"
  last_scheduled_tour :: "scheduled_tour option"

record tool_context =
  state :: "session option"

definition empty_session :: session where
  "empty_session =
     \<lparr>current_user_id = None, user_info = None, last_apartment_search = None,
      last_scheduled_tour = None\<rparr>"

text \<open>The first statement of every tool: \<^verbatim>\<open>if tool_context and tool_context.state is None\<close>.\<close>

definition ensure_state :: "tool_context option \<Rightarrow> tool_context option" where
  "ensure_state tc =
     (case tc of
        None \<Rightarrow> None
      | Some c \<Rightarrow> (case state c of None \<Rightarrow> Some (c\<lparr>state := Some empty_session\<rparr>) | Some s \<Rightarrow> Some c))"

text \<open>Reading the state of a context, and running an update of it when there is a context.\<close>

definition state_of :: "tool_context option \<Rightarrow> session option" where
  "state_of tc = (case tc of None \<Rightarrow> None | Some c \<Rightarrow> state c)"

definition modify_state :: "(session \<Rightarrow> session) \<Rightarrow> tool_context option \<Rightarrow> tool_context option" where
  "modify_state f tc = map_option (\<lambda>c. c\<lparr>state := map_option f (state c)\<rparr>) tc"

record apartment_details =
  d_unit_number :: string
  d_apartment_type :: string
  d_floor_plan :: string
  d_bedrooms :: int
  d_bathrooms :: rat

text \<open>
  The response envelopes: \<open>Error\<close> carries the message of a payload with status
  \<^verbatim>\<open>"error"\<close>, every other constructor is a payload with status \<^verbatim>\<open>"success"\<close>.
\<close>

datatype response =
    Error string
  | Apartments nat "(string \<times> nat) list" "apartment list"
  | User_created string
  | User_updated
  | User_found "(string \<times> pyval) list"
  | Tour_scheduled int string string bool "apartment_details option"

subsection \<open>Unit query\<close>

text \<open>
  The block of \<^verbatim>\<open>query_apartments\<close> that formats the move-in date. The same block
  opens \<^verbatim>\<open>manage_user\<close>; its handler differs, but \<^verbatim>\<open>str.lower\<close> raises
  nothing on a string, so neither handler runs.
\<close>

definition format_move_in_date :: "string option \<Rightarrow> string option" where
  "format_move_in_date move_in_date =
     (case move_in_date of
        None \<Rightarrow> None
      | Some d \<Rightarrow>
          if d \<noteq> [] then
            (if lower d = ''july'' then Some ''2025-07-01''
             else if lower d = ''august'' then Some ''2025-08-01''
             else None)
          else None)"

fun counts_by_type :: "apartment list \<Rightarrow> (string \<times> nat) list \<Rightarrow> (string \<times> nat) list" where
  "counts_by_type [] counts = counts"
| "counts_by_type (apt # apts) counts =
     counts_by_type apts
       (AList.update (apartment_type apt)
          (case map_of counts (apartment_type apt) of None \<Rightarrow> 1 | Some n \<Rightarrow> n + 1) counts)"

definition query_apartments ::
  "database \<Rightarrow> string option \<Rightarrow> string option \<Rightarrow> tool_context option
     \<Rightarrow> response \<times> tool_context option" where
  "query_apartments db apt_type move_in_date tool_context =
     (let tc = ensure_state tool_context;
          formatted_date = format_move_in_date move_in_date;
          apts = get_available_apartments db apt_type formatted_date;
          counts = counts_by_type apts []
      in (Apartments (length apts) counts apts,
          modify_state (\<lambda>s. s\<lparr>last_apartment_search :=
            Some \<lparr>s_apartment_type = apt_type, s_move_in_date = move_in_date,
                  s_formatted_date = formatted_date, s_result_count = length apts,
                  s_counts_by_type = counts\<rparr>\<rparr>) tc))"

subsection \<open>Prospect management\<close>

record user_args =
  action :: string
  user_id :: "string option"
  name :: "string option"
  phone :: "string option"
  email :: "string option"
  move_in_date :: "string option"
  preferred_apartment_type :: "string option"
  has_pets :: "bool option"
  income :: "rat option"
  credit_score :: "int option"
  "notes" :: "string option"

text \<open>The dict \<^verbatim>\<open>update_fields\<close> of the update action: a field enters when it is truthy.\<close>

definition update_fields :: "user_args \<Rightarrow> string option \<Rightarrow> (string \<times> pyval) list" where
  "update_fields a formatted_date =
     (if truthy_str (name a) then [(''name'', opt_str (name a))] else []) @
     (if truthy_str (phone a) then [(''phone'', opt_str (phone a))] else []) @
     (if truthy_str (email a) then [(''email'', opt_str (email a))] else []) @
     (if truthy_str formatted_date then [(''move_in_date'', opt_str formatted_date)] else []) @
     (if truthy_str (preferred_apartment_type a)
      then [(''preferred_apartment_type'', opt_str (preferred_apartment_type a))] else []) @
     (case has_pets a of None \<Rightarrow> [] | Some b \<Rightarrow> [(''has_pets'', PBool b)]) @
     (case income a of None \<Rightarrow> [] | Some x \<Rightarrow> if x \<noteq> 0 then [(''income'', PFloat x)] else []) @
     (case credit_score a of
        None \<Rightarrow> []
      | Some n \<Rightarrow> if n \<noteq> 0 then [(''credit_score'', PInt n)] else []) @
     (if truthy_str (notes a) then [(''notes'', opt_str (notes a))] else [])"

text \<open>\<^verbatim>\<open>dict.update\<close>: a key keeps its place when it is there, and is appended otherwise.\<close>

definition dict_update :: "(string \<times> pyval) list \<Rightarrow> (string \<times> pyval) list \<Rightarrow> (string \<times> pyval) list" where
  "dict_update d new = fold (\<lambda>kv acc. AList.update (fst kv) (snd kv) acc) new d"

text \<open>
  The identifier of the update and get actions: the argument, or else the entry
  \<^verbatim>\<open>current_user_id\<close> of the session when the context has one.
\<close>

definition resolve_user_id :: "string option \<Rightarrow> tool_context option \<Rightarrow> string option" where
  "resolve_user_id uid tc =
     (if \<not> truthy_str uid then
        (case state_of tc of
           None \<Rightarrow> uid
         | Some s \<Rightarrow> (case current_user_id s of None \<Rightarrow> uid | Some u \<Rightarrow> Some u))
      else uid)"

text \<open>
  The snapshot of the session after a successful update: the update set is merged in, and
  a truthy move-in argument is written as it was given.
\<close>

definition merged_user_info ::
  "(string \<times> pyval) list \<Rightarrow> (string \<times> pyval) list \<Rightarrow> string option \<Rightarrow> (string \<times> pyval) list" where
  "merged_user_info info new_fields move_in =
     (let info' = dict_update info new_fields in
      if truthy_str move_in then AList.update ''move_in_date'' (opt_str move_in) info'
      else info')"

definition bool_val :: "bool option \<Rightarrow> pyval" where
  "bool_val b = (case b of None \<Rightarrow> PNone | Some x \<Rightarrow> PBool x)"

definition manage_user ::
  "(string \<Rightarrow> pyval \<Rightarrow> pyval) \<Rightarrow> string \<Rightarrow> string \<Rightarrow> database \<Rightarrow> user_args
     \<Rightarrow> tool_context option \<Rightarrow> error + (response \<times> database \<times> tool_context option)" where
  "manage_user coerce uuid4 current_time db a tool_context =
     (let tc = ensure_state tool_context;
          formatted_date = format_move_in_date (move_in_date a)
      in
      if action a = ''create'' then
        (case create_user db uuid4 current_time (name a) (phone a) (email a) formatted_date
                (preferred_apartment_type a) (has_pets a) of
           Inl e \<Rightarrow> Inl e
         | Inr (uid, db') \<Rightarrow>
             if uid \<noteq> [] then
               Inr (User_created uid, db',
                 modify_state (\<lambda>s. s\<lparr>current_user_id := Some uid,
                   user_info := Some
                     [(''user_id'', PStr uid),
                      (''name'', opt_str (name a)),
                      (''phone'', opt_str (phone a)),
                      (''email'', opt_str (email a)),
                      (''move_in_date'', opt_str (move_in_date a)),
                      (''formatted_move_in_date'', opt_str formatted_date),
                      (''preferred_apartment_type'', opt_str (preferred_apartment_type a)),
                      (''has_pets'', bool_val (has_pets a))]\<rparr>) tc)
             else Inr (Error ''Failed to create user'', db', tc))
      else if action a = ''update'' then
        (case resolve_user_id (user_id a) tc of
           None \<Rightarrow> Inr (Error ''No user ID provided for update'', db, tc)
         | Some uid \<Rightarrow>
             if uid = [] then Inr (Error ''No user ID provided for update'', db, tc)
             else
               (let fields = update_fields a formatted_date in
                case update_user coerce db current_time uid fields of
                  Inl e \<Rightarrow> Inl e
                | Inr (success, db') \<Rightarrow>
                    if success then
                      Inr (User_updated, db',
                        modify_state (\<lambda>s.
                          (case user_info s of
                             None \<Rightarrow> s
                           | Some info \<Rightarrow>
                               s\<lparr>user_info :=
                                 Some (merged_user_info info fields (move_in_date a))\<rparr>)) tc)
                    else Inr (Error ''Failed to update user information'', db', tc)))
      else if action a = ''get'' then
        (case resolve_user_id (user_id a) tc of
           None \<Rightarrow> Inr (Error ''No user ID provided to retrieve user information'', db, tc)
         | Some uid \<Rightarrow>
             if uid = [] then
               Inr (Error ''No user ID provided to retrieve user information'', db, tc)
             else
               (let user = get_user db uid
                in if user \<noteq> [] then
                     Inr (User_found user, db, modify_state (\<lambda>s. s\<lparr>user_info := Some user\<rparr>) tc)
                   else Inr (Error (''No user found with ID '' @ uid), db, tc)))
      else Inr (Error (''Unknown action: '' @ action a), db, tc))"

subsection \<open>Tour scheduling\<close>

text \<open>
  \<open>date_after n\<close> is the date \<open>n\<close> days after today in the format
  \<^verbatim>\<open>%Y-%m-%d\<close>, read from the wall clock. The date and the time are strings, on
  which the date block raises nothing.
\<close>

definition format_date :: "(nat \<Rightarrow> string) \<Rightarrow> string \<Rightarrow> string" where
  "format_date date_after tour_date =
     (if lower tour_date = ''tomorrow'' then date_after 1
      else if lower tour_date = ''next week'' then date_after 7
      else tour_date)"

definition truthy_id :: "int option \<Rightarrow> bool" where
  "truthy_id i = (case i of None \<Rightarrow> False | Some n \<Rightarrow> n \<noteq> 0)"

definition id_val :: "int option \<Rightarrow> pyval" where
  "id_val i = (case i of None \<Rightarrow> PNone | Some n \<Rightarrow> PInt n)"

definition details_of :: "apartment \<Rightarrow> apartment_details" where
  "details_of apt =
     \<lparr>d_unit_number = unit_number apt, d_apartment_type = apartment_type apt,
      d_floor_plan = floor_plan apt, d_bedrooms = bedrooms apt, d_bathrooms = bathrooms apt\<rparr>"

text \<open>The identifier that the session holds under \<^verbatim>\<open>current_user_id\<close>, if any.\<close>

definition session_user_id :: "tool_context option \<Rightarrow> string option" where
  "session_user_id tc = (case state_of tc of None \<Rightarrow> None | Some s \<Rightarrow> current_user_id s)"

definition schedule_property_tour ::
  "(nat \<Rightarrow> string) \<Rightarrow> database \<Rightarrow> string \<Rightarrow> string \<Rightarrow> bool \<Rightarrow> int option \<Rightarrow> string option
     \<Rightarrow> string option \<Rightarrow> tool_context option \<Rightarrow> response \<times> database \<times> tool_context option" where
  "schedule_property_tour date_after db tour_date tour_time is_virtual apartment_id apt_type
       tour_notes tool_context =
     (let tc = ensure_state tool_context;
          uid = session_user_id tc
      in
      if \<not> truthy_str uid then
        (Error ''No user identified. Please provide user information first.'', db, tc)
      else
        (let formatted_date = format_date date_after tour_date in
         case format_time tour_time of
           None \<Rightarrow> (Error (''Could not parse tour time: '' @ tour_time), db, tc)
         | Some formatted_time \<Rightarrow>
             (let apartment_id' =
                    (if \<not> truthy_id apartment_id \<and> truthy_str apt_type then
                       (case get_available_apartments db apt_type None of
                          [] \<Rightarrow> apartment_id
                        | apt # rest \<Rightarrow> Some (a_id apt))
                     else apartment_id);
                  (tour_id, db') =
                    schedule_tour db (case uid of None \<Rightarrow> [] | Some u \<Rightarrow> u) (PStr formatted_date)
                      (PStr formatted_time) (id_val apartment_id') is_virtual (opt_str tour_notes)
              in
              if tour_id > 0 then
                (Tour_scheduled tour_id formatted_date formatted_time is_virtual
                   (if truthy_id apartment_id' then
                      (case apartment_id' of
                         None \<Rightarrow> None
                       | Some i \<Rightarrow> map_option details_of (get_apartment_by_id db' i))
                    else None),
                 db',
                 modify_state (\<lambda>s. s\<lparr>last_scheduled_tour :=
                   Some \<lparr>st_tour_id = tour_id, st_tour_date = formatted_date,
                         st_tour_time = formatted_time, st_apartment_id = apartment_id',
                         st_apartment_type = apt_type, st_is_virtual = is_virtual\<rparr>\<rparr>) tc)
              else (Error ''Failed to schedule tour'', db', tc))))"

section \<open>Sample inputs\<close>

text \<open>Concrete stores, contexts and arguments on which the properties below are run.\<close>

definition no_state_context :: "tool_context option" where
  "no_state_context = Some \<lparr>state = None\<rparr>"



definition user_context :: "tool_context option" where
  "user_context = Some \<lparr>state = Some (empty_session\<lparr>current_user_id := Some ''u1''\<rparr>)\<rparr>"


text \<open>The seed store with every unit let.\<close>

definition fully_let_db :: database where
  "fully_let_db =
     MockDatabase\<lparr>apartments := map (\<lambda>a. a\<lparr>is_available := 0\<rparr>) apartments_data\<rparr>"


section \<open>Properties of the store\<close>

lemmas seed_defs = MockDatabase_def apartments_data_def mk_apartment_def

lemmas lower_eval = lower_def lower_char_def upper_letters_def lower_letters_def

lemmas int_eval = py_int_def int_text_def is_c_space_def is_digit_def digit_val_def
  max_str_digits_def

lemmas str_eval = py_str_def py_fmt_02d_def str_int_def fmt_02d_def str_nat.simps digit_char_def

lemmas time_eval = format_time_def lower_eval strip_def is_space_def int_eval hour_pm_def
  hour_am_def str_eval

lemma type_filter_available [simp]:
  "type_filter t (a\<lparr>is_available := x\<rparr>) = type_filter t a"
  by (simp add: type_filter_def)

lemma pricing_ignores_availability:
  "get_pricing_info (db\<lparr>apartments := map (\<lambda>a. a\<lparr>is_available := f a\<rparr>) (apartments db)\<rparr>) t
     = get_pricing_info db t"
  by (simp add: get_pricing_info_def filter_map comp_def Let_def)

lemma pricing_seed_all:
  "get_pricing_info MockDatabase None =
     [(''1_bedroom'', \<lparr>min_rent = 1600, max_rent = 1650, avg_rent = 1625, count = 4\<rparr>),
      (''2_bedroom'', \<lparr>min_rent = 2100, max_rent = 2200, avg_rent = 2150, count = 4\<rparr>)]"
  by (simp add: get_pricing_info_def type_filter_def aggregate_def seed_defs)

lemma pricing_seed_one:
  "get_pricing_info MockDatabase (Some ''1_bedroom'') =
     [(''1_bedroom'', \<lparr>min_rent = 1600, max_rent = 1650, avg_rent = 1625, count = 4\<rparr>)]"
  by (simp add: get_pricing_info_def type_filter_def aggregate_def seed_defs)

lemma pricing_seed_two:
  "get_pricing_info MockDatabase (Some ''2_bedroom'') =
     [(''2_bedroom'', \<lparr>min_rent = 2100, max_rent = 2200, avg_rent = 2150, count = 4\<rparr>)]"
  by (simp add: get_pricing_info_def type_filter_def aggregate_def seed_defs)

lemma seed_types:
  "set (map apartment_type (apartments MockDatabase)) = {''1_bedroom'', ''2_bedroom''}"
  by (simp add: seed_defs)

lemma seed_rows_per_type:
  "length (filter (\<lambda>a. apartment_type a = ''1_bedroom'') (apartments MockDatabase)) = 4"
  "length (filter (\<lambda>a. apartment_type a = ''2_bedroom'') (apartments MockDatabase)) = 4"
  by (simp_all add: seed_defs)

lemma seed_available_per_type:
  "map a_id (get_available_apartments MockDatabase (Some ''1_bedroom'') None) = [101, 102]"
  "map a_id (get_available_apartments MockDatabase (Some ''2_bedroom'') None) = [301, 302]"
  by (simp_all add: get_available_apartments_def type_filter_def date_filter_def seed_defs)

text \<open>
  Claim C5. On the seed data the pricing summary has one entry for each of the two
  apartment types of the table, whether it is asked for all types or for one. Each entry
  is computed over all four rows of its type, of which only two are available: the
  one-bedroom units have minimum 1600, maximum 1650 and mean 1625, the two-bedroom units
  minimum 2100, maximum 2200 and mean 2150, so that the minimum is at most the mean and
  the mean at most the maximum, and the count is the number of rows of the type. In any
  store, changing the availability flags in any way leaves the summary as it is.
\<close>

theorem pricing_summary_over_all_units:
  "set (map apartment_type (apartments MockDatabase)) = {''1_bedroom'', ''2_bedroom''}
   \<and> get_pricing_info MockDatabase None =
       [(''1_bedroom'', \<lparr>min_rent = 1600, max_rent = 1650, avg_rent = 1625, count = 4\<rparr>),
        (''2_bedroom'', \<lparr>min_rent = 2100, max_rent = 2200, avg_rent = 2150, count = 4\<rparr>)]
   \<and> get_pricing_info MockDatabase (Some ''1_bedroom'') =
       [(''1_bedroom'', \<lparr>min_rent = 1600, max_rent = 1650, avg_rent = 1625, count = 4\<rparr>)]
   \<and> get_pricing_info MockDatabase (Some ''2_bedroom'') =
       [(''2_bedroom'', \<lparr>min_rent = 2100, max_rent = 2200, avg_rent = 2150, count = 4\<rparr>)]
   \<and> list_all (\<lambda>(t, p). min_rent p \<le> avg_rent p \<and> avg_rent p \<le> max_rent p
         \<and> count p = length (filter (\<lambda>a. apartment_type a = t) (apartments MockDatabase)))
       (get_pricing_info MockDatabase None)
   \<and> map a_id (get_available_apartments MockDatabase (Some ''1_bedroom'') None) = [101, 102]
   \<and> map a_id (get_available_apartments MockDatabase (Some ''2_bedroom'') None) = [301, 302]
   \<and> (\<forall>db f t.
         get_pricing_info (db\<lparr>apartments := map (\<lambda>a. a\<lparr>is_available := f a\<rparr>) (apartments db)\<rparr>) t
           = get_pricing_info db t)"
proof -
  have "list_all (\<lambda>(t, p). min_rent p \<le> avg_rent p \<and> avg_rent p \<le> max_rent p
         \<and> count p = length (filter (\<lambda>a. apartment_type a = t) (apartments MockDatabase)))
       (get_pricing_info MockDatabase None)"
    by (simp add: pricing_seed_all seed_rows_per_type)
  then show ?thesis
    by (simp only: seed_types pricing_seed_all pricing_seed_one pricing_seed_two
      seed_available_per_type pricing_ignores_availability simp_thms)
qed

section \<open>Properties of the tools\<close>

lemma session_user_id_ensure [simp]:
  "session_user_id (ensure_state tc) = session_user_id tc"
  by (simp add: session_user_id_def ensure_state_def state_of_def empty_session_def
      split: option.splits)

text \<open>
  Claim C6. When the session holds no current-prospect identifier (there is no context,
  its state is missing, or the state has no entry \<^verbatim>\<open>current_user_id\<close>), the
  tour-scheduling tool answers with the error payload and returns the store as it was,
  whatever the date, the time, the unit and the type are: no booking is created and the
  answer does not depend on whether the date or the time could be parsed.
\<close>

theorem tour_without_prospect_refused:
  assumes "session_user_id tool_context = None"
  shows "schedule_property_tour date_after db tour_date tour_time is_virtual apartment_id
           apt_type tour_notes tool_context
         = (Error ''No user identified. Please provide user information first.'', db,
            ensure_state tool_context)"
  using assms by (simp add: schedule_property_tour_def Let_def)

theorem tour_without_prospect_refused_witness:
  "session_user_id no_state_context = None
   \<and> schedule_property_tour (\<lambda>n. ''2025-06-02'') MockDatabase ''tomorrow'' ''3pm'' False None
        (Some ''1_bedroom'') None no_state_context
      = (Error ''No user identified. Please provide user information first.'', MockDatabase,
         Some \<lparr>state = Some empty_session\<rparr>)
   \<and> tours MockDatabase = []"
proof -
  have h: "session_user_id no_state_context = None"
    by (simp add: session_user_id_def no_state_context_def state_of_def)
  have e: "ensure_state no_state_context = Some \<lparr>state = Some empty_session\<rparr>"
    by (simp add: ensure_state_def no_state_context_def)
  show ?thesis
    using h e tour_without_prospect_refused [OF h, of "\<lambda>n. ''2025-06-02''" MockDatabase
        "''tomorrow''" "''3pm''" False None "Some ''1_bedroom''" None]
    by (simp add: MockDatabase_def)
qed

lemma seed_available_all:
  "map a_id (get_available_apartments MockDatabase None None) = [101, 102, 301, 302]"
  by (simp add: get_available_apartments_def type_filter_def date_filter_def seed_defs)

lemma seed_available_by_date:
  "map a_id (get_available_apartments MockDatabase None (Some ''2025-07-10'')) = [101, 301, 302]"
  by (simp add: get_available_apartments_def type_filter_def date_filter_def seed_defs)

lemma format_move_in_date_samples:
  "format_move_in_date (Some ''july'') = Some ''2025-07-01''"
  "format_move_in_date (Some ''JULY'') = Some ''2025-07-01''"
  "format_move_in_date (Some ''August'') = Some ''2025-08-01''"
  "format_move_in_date (Some ''2025-07-10'') = None"
  by (simp_all add: format_move_in_date_def lower_eval)

text \<open>
  Claim C1. The hints \<^verbatim>\<open>"july"\<close> and \<^verbatim>\<open>"august"\<close> are mapped as the claim says, in
  any letter case. Any other hint is not passed on: the formatted date stays
  \<^verbatim>\<open>None\<close> and the store is queried with no date bound. On the seed data the hint
  \<^verbatim>\<open>"2025-07-10"\<close>, in the format that the docstring of the tool asks for, returns
  all four available units, unit 102 (available from 2025-07-15) among them, where the
  store queried with that bound returns three.
\<close>

theorem query_apartments_drops_other_hints:
  "format_move_in_date (Some ''july'') = Some ''2025-07-01''
   \<and> format_move_in_date (Some ''JULY'') = Some ''2025-07-01''
   \<and> format_move_in_date (Some ''August'') = Some ''2025-08-01''
   \<and> format_move_in_date (Some ''2025-07-10'') = None
   \<and> fst (query_apartments MockDatabase None (Some ''2025-07-10'') None)
       = Apartments 4 [(''1_bedroom'', 2), (''2_bedroom'', 2)]
           (get_available_apartments MockDatabase None None)
   \<and> map a_id (get_available_apartments MockDatabase None None) = [101, 102, 301, 302]
   \<and> map a_id (get_available_apartments MockDatabase None (Some ''2025-07-10'')) = [101, 301, 302]"
proof -
  have "fst (query_apartments MockDatabase None (Some ''2025-07-10'') None)
       = Apartments 4 [(''1_bedroom'', 2), (''2_bedroom'', 2)]
           (get_available_apartments MockDatabase None None)"
    by (simp add: query_apartments_def Let_def format_move_in_date_samples
        get_available_apartments_def type_filter_def date_filter_def seed_defs)
  then show ?thesis
    by (simp only: format_move_in_date_samples seed_available_all seed_available_by_date simp_thms)
qed

lemma update_fields_falsy:
  "update_fields (a\<lparr>name := Some ''''\<rparr>) fd = update_fields (a\<lparr>name := None\<rparr>) fd"
  "update_fields (a\<lparr>phone := Some ''''\<rparr>) fd = update_fields (a\<lparr>phone := None\<rparr>) fd"
  "update_fields (a\<lparr>email := Some ''''\<rparr>) fd = update_fields (a\<lparr>email := None\<rparr>) fd"
  "update_fields (a\<lparr>notes := Some ''''\<rparr>) fd = update_fields (a\<lparr>notes := None\<rparr>) fd"
  "update_fields (a\<lparr>income := Some 0\<rparr>) fd = update_fields (a\<lparr>income := None\<rparr>) fd"
  "update_fields (a\<lparr>credit_score := Some 0\<rparr>) fd = update_fields (a\<lparr>credit_score := None\<rparr>) fd"
  by (simp_all add: update_fields_def)

lemma update_fields_has_pets:
  "(''has_pets'', PBool False) \<in> set (update_fields (a\<lparr>has_pets := Some False\<rparr>) fd)"
  "map_of (update_fields (a\<lparr>has_pets := None\<rparr>) fd) ''has_pets'' = None"
  by (simp_all add: update_fields_def split: option.splits)

lemma truthy_opt_str [simp]: "truthy (opt_str x) = truthy_str x"
  by (cases x) simp_all

lemma update_fields_truthy:
  "list_all (\<lambda>kv. fst kv = ''has_pets'' \<or> truthy (snd kv)) (update_fields a fd)"
  by (simp add: update_fields_def split: option.splits)

lemma manage_user_update_cong:
  assumes "action a = ''update''" "action b = ''update''" "user_id a = user_id b"
    "move_in_date a = move_in_date b"
    "update_fields a (format_move_in_date (move_in_date a))
       = update_fields b (format_move_in_date (move_in_date b))"
  shows "manage_user cv u t db a tc = manage_user cv u t db b tc"
  using assms
  by (simp add: manage_user_def Let_def
      cong: option.case_cong if_cong sum.case_cong prod.case_cong)

lemma manage_user_update_falsy:
  "manage_user cv u t db (a\<lparr>action := ''update'', name := Some ''''\<rparr>) tc
     = manage_user cv u t db (a\<lparr>action := ''update'', name := None\<rparr>) tc"
  "manage_user cv u t db (a\<lparr>action := ''update'', phone := Some ''''\<rparr>) tc
     = manage_user cv u t db (a\<lparr>action := ''update'', phone := None\<rparr>) tc"
  "manage_user cv u t db (a\<lparr>action := ''update'', email := Some ''''\<rparr>) tc
     = manage_user cv u t db (a\<lparr>action := ''update'', email := None\<rparr>) tc"
  "manage_user cv u t db (a\<lparr>action := ''update'', notes := Some ''''\<rparr>) tc
     = manage_user cv u t db (a\<lparr>action := ''update'', notes := None\<rparr>) tc"
  "manage_user cv u t db (a\<lparr>action := ''update'', income := Some 0\<rparr>) tc
     = manage_user cv u t db (a\<lparr>action := ''update'', income := None\<rparr>) tc"
  "manage_user cv u t db (a\<lparr>action := ''update'', credit_score := Some 0\<rparr>) tc
     = manage_user cv u t db (a\<lparr>action := ''update'', credit_score := None\<rparr>) tc"
  by (rule manage_user_update_cong; simp add: update_fields_falsy)+

text \<open>
  Claim C10. In the update action an empty-string name, phone, email or notes, an income
  of 0 and a credit score of 0 build the same update set, and give the same result of the
  tool, as the absent argument. Every entry of the update set other than
  \<^verbatim>\<open>has_pets\<close> has a truthy value, so none of these fields is ever set to an empty
  or zero value; \<^verbatim>\<open>has_pets\<close> alone enters the set with the value
  \<^verbatim>\<open>False\<close> and stays out of it when it is absent.
\<close>

theorem update_action_falsy_is_absent:
  "update_fields (a\<lparr>name := Some ''''\<rparr>) fd = update_fields (a\<lparr>name := None\<rparr>) fd
   \<and> update_fields (a\<lparr>phone := Some ''''\<rparr>) fd = update_fields (a\<lparr>phone := None\<rparr>) fd
   \<and> update_fields (a\<lparr>email := Some ''''\<rparr>) fd = update_fields (a\<lparr>email := None\<rparr>) fd
   \<and> update_fields (a\<lparr>notes := Some ''''\<rparr>) fd = update_fields (a\<lparr>notes := None\<rparr>) fd
   \<and> update_fields (a\<lparr>income := Some 0\<rparr>) fd = update_fields (a\<lparr>income := None\<rparr>) fd
   \<and> update_fields (a\<lparr>credit_score := Some 0\<rparr>) fd = update_fields (a\<lparr>credit_score := None\<rparr>) fd
   \<and> manage_user cv u t db (a\<lparr>action := ''update'', name := Some ''''\<rparr>) tc
       = manage_user cv u t db (a\<lparr>action := ''update'', name := None\<rparr>) tc
   \<and> manage_user cv u t db (a\<lparr>action := ''update'', phone := Some ''''\<rparr>) tc
       = manage_user cv u t db (a\<lparr>action := ''update'', phone := None\<rparr>) tc
   \<and> manage_user cv u t db (a\<lparr>action := ''update'', email := Some ''''\<rparr>) tc
       = manage_user cv u t db (a\<lparr>action := ''update'', email := None\<rparr>) tc
   \<and> manage_user cv u t db (a\<lparr>action := ''update'', notes := Some ''''\<rparr>) tc
       = manage_user cv u t db (a\<lparr>action := ''update'', notes := None\<rparr>) tc
   \<and> manage_user cv u t db (a\<lparr>action := ''update'', income := Some 0\<rparr>) tc
       = manage_user cv u t db (a\<lparr>action := ''update'', income := None\<rparr>) tc
   \<and> manage_user cv u t db (a\<lparr>action := ''update'', credit_score := Some 0\<rparr>) tc
       = manage_user cv u t db (a\<lparr>action := ''update'', credit_score := None\<rparr>) tc
   \<and> list_all (\<lambda>kv. fst kv = ''has_pets'' \<or> truthy (snd kv)) (update_fields a fd)
   \<and> (''has_pets'', PBool False) \<in> set (update_fields (a\<lparr>has_pets := Some False\<rparr>) fd)
   \<and> map_of (update_fields (a\<lparr>has_pets := None\<rparr>) fd) ''has_pets'' = None"
  by (intro conjI)
    (rule update_fields_falsy manage_user_update_falsy update_fields_truthy update_fields_has_pets)+

lemma find_append_fresh:
  "\<forall>x \<in> set xs. \<not> P x \<Longrightarrow> P r \<Longrightarrow> find P (xs @ [r]) = Some r"
  by (induction xs) auto

lemma create_user_fresh:
  assumes "uuid4 \<notin> set (map u_user_id (users db))"
  shows "create_user db uuid4 now n p e m ty hp =
     Inr (uuid4,
        db\<lparr>users := users db @
          [\<lparr>u_id = next_rowid (map u_id (users db)),
            u_user_id = uuid4,
            u_name = opt_str n,
            u_phone = opt_str p,
            u_email = opt_str e,
            u_move_in_date = opt_str m,
            u_preferred_apartment_type = opt_str ty,
            u_has_pets = (case hp of None \<Rightarrow> PNone | Some b \<Rightarrow> PInt (if b then 1 else 0)),
            u_income = PNone,
            u_credit_score = PNone,
            u_notes = PNone,
            u_created_at = now,
            u_last_contact = PStr now\<rparr>]\<rparr>)"
  using assms by (simp add: create_user_def)

lemma get_user_after_create:
  assumes "uuid4 \<notin> set (map u_user_id (users db))"
    and "create_user db uuid4 now n p e m ty hp = Inr (uid, db')"
  shows "uid = uuid4"
    and "get_user db' uid =
      [(''id'', PInt (next_rowid (map u_id (users db)))),
       (''user_id'', PStr uuid4),
       (''name'', opt_str n),
       (''phone'', opt_str p),
       (''email'', opt_str e),
       (''move_in_date'', opt_str m),
       (''preferred_apartment_type'', opt_str ty),
       (''has_pets'', bool_val hp),
       (''income'', PNone),
       (''credit_score'', PNone),
       (''notes'', PNone),
       (''created_at'', PStr now),
       (''last_contact'', PStr now)]"
proof -
  from assms have eq: "uid = uuid4" and db': "db' = db\<lparr>users := users db @
          [\<lparr>u_id = next_rowid (map u_id (users db)),
            u_user_id = uuid4,
            u_name = opt_str n,
            u_phone = opt_str p,
            u_email = opt_str e,
            u_move_in_date = opt_str m,
            u_preferred_apartment_type = opt_str ty,
            u_has_pets = (case hp of None \<Rightarrow> PNone | Some b \<Rightarrow> PInt (if b then 1 else 0)),
            u_income = PNone,
            u_credit_score = PNone,
            u_notes = PNone,
            u_created_at = now,
            u_last_contact = PStr now\<rparr>]\<rparr>"
    using create_user_fresh [OF assms(1), of now n p e m ty hp] by auto
  show "uid = uuid4" by (rule eq)
  have fresh: "\<forall>x \<in> set (users db). \<not> (u_user_id x = uuid4)"
    using assms(1) by auto
  show "get_user db' uid = [(''id'', PInt (next_rowid (map u_id (users db)))),
       (''user_id'', PStr uuid4),
       (''name'', opt_str n),
       (''phone'', opt_str p),
       (''email'', opt_str e),
       (''move_in_date'', opt_str m),
       (''preferred_apartment_type'', opt_str ty),
       (''has_pets'', bool_val hp),
       (''income'', PNone),
       (''credit_score'', PNone),
       (''notes'', PNone),
       (''created_at'', PStr now),
       (''last_contact'', PStr now)]"
    unfolding eq db' get_user_def
    by (simp add: find_append_fresh [OF fresh] user_dict_def bool_val_def split: option.splits)
qed

text \<open>
  Claim C7. Creating a prospect under a fresh identifier succeeds and returns that
  identifier; reading the prospect with the returned identifier right afterwards yields
  the record whose name, phone, email, move-in date, preferred type and has-pets flag
  are the values supplied (\<^verbatim>\<open>None\<close> where none was supplied), whose income, credit
  score and notes are null, and whose creation and last-contact timestamps are both the
  time of the creation call.
\<close>

theorem get_user_after_create_user:
  assumes "uuid4 \<notin> set (map u_user_id (users db))"
  shows "(case create_user db uuid4 now n p e m ty hp of
            Inl err \<Rightarrow> False
          | Inr (uid, db') \<Rightarrow>
              uid = uuid4
              \<and> get_user db' uid =
                  [(''id'', PInt (next_rowid (map u_id (users db)))),
                   (''user_id'', PStr uuid4),
                   (''name'', opt_str n),
                   (''phone'', opt_str p),
                   (''email'', opt_str e),
                   (''move_in_date'', opt_str m),
                   (''preferred_apartment_type'', opt_str ty),
                   (''has_pets'', bool_val hp),
                   (''income'', PNone),
                   (''credit_score'', PNone),
                   (''notes'', PNone),
                   (''created_at'', PStr now),
                   (''last_contact'', PStr now)])"
proof (cases "create_user db uuid4 now n p e m ty hp")
  case (Inl err)
  then show ?thesis
    using create_user_fresh [OF assms, of now n p e m ty hp] by simp
next
  case (Inr res)
  obtain uid db' where res: "res = (uid, db')"
    by (cases res)
  show ?thesis
    using get_user_after_create [OF assms Inr [unfolded res]]
    by (simp add: Inr res)
qed

theorem get_user_after_create_user_witness:
  "''u1'' \<notin> set (map u_user_id (users MockDatabase))
   \<and> (case create_user MockDatabase ''u1'' ''2025-06-01T10:00:00'' (Some ''Mark'') None None None
             (Some ''1_bedroom'') (Some False) of
         Inl err \<Rightarrow> False
       | Inr (uid, db') \<Rightarrow>
           uid = ''u1''
           \<and> get_user db' uid =
               [(''id'', PInt 1),
                (''user_id'', PStr ''u1''),
                (''name'', PStr ''Mark''),
                (''phone'', PNone),
                (''email'', PNone),
                (''move_in_date'', PNone),
                (''preferred_apartment_type'', PStr ''1_bedroom''),
                (''has_pets'', PBool False),
                (''income'', PNone),
                (''credit_score'', PNone),
                (''notes'', PNone),
                (''created_at'', PStr ''2025-06-01T10:00:00''),
                (''last_contact'', PStr ''2025-06-01T10:00:00'')])"
proof -
  have h: "''u1'' \<notin> set (map u_user_id (users MockDatabase))"
    by (simp add: MockDatabase_def)
  have r: "next_rowid (map u_id (users MockDatabase)) = 1"
    by (simp add: MockDatabase_def next_rowid_def)
  show ?thesis
    using h get_user_after_create_user [OF h, where now = "''2025-06-01T10:00:00''"
        and n = "Some ''Mark''" and p = None and e = None and m = None
        and ty = "Some ''1_bedroom''" and hp = "Some False"]
    by (simp add: r bool_val_def split: sum.splits prod.splits)
qed













lemma fold_max_ge: "(i::int) \<le> fold max xs i"
proof (induction xs arbitrary: i)
  case Nil
  show ?case by simp
next
  case (Cons x xs)
  have "i \<le> max x i" by simp
  also have "\<dots> \<le> fold max xs (max x i)" by (rule Cons.IH)
  finally show ?case by simp
qed

lemma next_rowid_positive:
  assumes "list_all (\<lambda>i. 0 < i) ids"
  shows "0 < next_rowid ids"
proof (cases ids)
  case Nil
  then show ?thesis by (simp add: next_rowid_def)
next
  case (Cons i rest)
  with assms have "0 < i" by simp
  moreover have "i \<le> fold max rest i" by (rule fold_max_ge)
  ultimately show ?thesis by (simp add: next_rowid_def Cons)
qed

text \<open>
  Claim C9. When the session names a prospect, the time can be formatted, a type but no
  unit is given and the store has no available unit of that type, the tool still inserts
  the booking, with a null apartment reference, and answers with the success payload
  whose unit details are \<^verbatim>\<open>None\<close>. The session records the tour with no unit. The
  row identifiers of the tours table are generated by the store and so are positive.
\<close>

theorem tour_booked_without_available_unit:
  assumes "session_user_id tool_context = Some u" and "u \<noteq> []"
    and "format_time tour_time = Some ft"
    and "ty \<noteq> []"
    and "get_available_apartments db (Some ty) None = []"
    and "list_all (\<lambda>t. 0 < t_id t) (tours db)"
  shows "schedule_property_tour date_after db tour_date tour_time is_virtual None (Some ty)
           tour_notes tool_context
         = (Tour_scheduled (next_rowid (map t_id (tours db))) (format_date date_after tour_date) ft
              is_virtual None,
            db\<lparr>tours := tours db @
              [\<lparr>t_id = next_rowid (map t_id (tours db)), t_user_id = u,
                t_tour_date = PStr (format_date date_after tour_date), t_tour_time = PStr ft,
                t_apartment_id = PNone, t_is_virtual = (if is_virtual then 1 else 0),
                t_status = ''Scheduled'', t_notes = opt_str tour_notes\<rparr>]\<rparr>,
            modify_state (\<lambda>s. s\<lparr>last_scheduled_tour :=
              Some \<lparr>st_tour_id = next_rowid (map t_id (tours db)),
                    st_tour_date = format_date date_after tour_date, st_tour_time = ft,
                    st_apartment_id = None, st_apartment_type = Some ty,
                    st_is_virtual = is_virtual\<rparr>\<rparr>) (ensure_state tool_context))"
proof -
  have "list_all (\<lambda>i. 0 < i) (map t_id (tours db))"
    using assms(6) by (simp add: list_all_iff)
  then have pos: "0 < next_rowid (map t_id (tours db))"
    by (rule next_rowid_positive)
  show ?thesis
    using assms(1-5) pos
    by (simp add: schedule_property_tour_def Let_def schedule_tour_def truthy_id_def id_val_def)
qed

theorem tour_booked_without_available_unit_witness:
  "session_user_id user_context = Some ''u1'' \<and> ''u1'' \<noteq> []
   \<and> format_time ''3pm'' = Some ''15:00''
   \<and> ''1_bedroom'' \<noteq> []
   \<and> get_available_apartments fully_let_db (Some ''1_bedroom'') None = []
   \<and> list_all (\<lambda>t. 0 < t_id t) (tours fully_let_db)
   \<and> schedule_property_tour (\<lambda>n. ''2025-06-02'') fully_let_db ''tomorrow'' ''3pm'' False None
         (Some ''1_bedroom'') None user_context
       = (Tour_scheduled 1 ''2025-06-02'' ''15:00'' False None,
          fully_let_db\<lparr>tours :=
            [\<lparr>t_id = 1, t_user_id = ''u1'', t_tour_date = PStr ''2025-06-02'',
              t_tour_time = PStr ''15:00'', t_apartment_id = PNone, t_is_virtual = 0,
              t_status = ''Scheduled'', t_notes = PNone\<rparr>]\<rparr>,
          Some \<lparr>state = Some (empty_session\<lparr>current_user_id := Some ''u1'',
            last_scheduled_tour :=
              Some \<lparr>st_tour_id = 1, st_tour_date = ''2025-06-02'', st_tour_time = ''15:00'',
                    st_apartment_id = None, st_apartment_type = Some ''1_bedroom'',
                    st_is_virtual = False\<rparr>\<rparr>)\<rparr>)"
proof -
  have h1: "session_user_id user_context = Some ''u1''"
    by (simp add: session_user_id_def user_context_def state_of_def)
  have h2: "''u1'' \<noteq> []"
    by simp
  have h3: "format_time ''3pm'' = Some ''15:00''"
    by (simp add: time_eval)
  have h4: "''1_bedroom'' \<noteq> []"
    by simp
  have h5: "get_available_apartments fully_let_db (Some ''1_bedroom'') None = []"
    by (simp add: get_available_apartments_def fully_let_db_def seed_defs)
  have h6: "list_all (\<lambda>t. 0 < t_id t) (tours fully_let_db)"
    by (simp add: fully_let_db_def MockDatabase_def)
  have d: "format_date (\<lambda>n. ''2025-06-02'') ''tomorrow'' = ''2025-06-02''"
    by (simp add: format_date_def lower_eval)
  have t: "tours fully_let_db = []"
    by (simp add: fully_let_db_def MockDatabase_def)
  show ?thesis
    using h1 h2 h3 h4 h5 h6
      tour_booked_without_available_unit [OF h1 h2 h3 h4 h5 h6,
        where date_after = "\<lambda>n. ''2025-06-02''" and tour_date = "''tomorrow''"
          and is_virtual = False and tour_notes = None]
    by (simp add: d t next_rowid_def ensure_state_def modify_state_def user_context_def)
qed

end
